theory Spec2Isabelle
  imports Main "HOL-Library.Multiset"
begin

section \<open>Resource collector: a shallow embedding\<close>

text \<open>
  The embedded program is the Go component \<^verbatim>\<open>resource-collector-component\<close>: its
  collection engine (\<^verbatim>\<open>executeCollection\<close>, \<^verbatim>\<open>fetchWorldBankData\<close>), its
  exporters (\<^verbatim>\<open>exportJSONLD\<close>, \<^verbatim>\<open>publishToMCP\<close>, \<^verbatim>\<open>callExternalMCPTool\<close>) and
  its tool dispatcher (\<^verbatim>\<open>callTool\<close>).

  Conventions.
  \<^item> A Go \<^verbatim>\<open>string\<close> is a \<open>string\<close> of bytes; a slice is a list (the nil slice is
    \<open>[]\<close>); \<^verbatim>\<open>len\<close> is \<open>length\<close>, a \<open>nat\<close>; a Go \<^verbatim>\<open>int\<close> that holds a
    year is an \<open>int\<close>.
  \<^item> A \<^verbatim>\<open>float64\<close> is a value of the type parameter \<open>'v\<close>: the program stores and
    copies such values and never computes with them.
  \<^item> The package-level variable \<^verbatim>\<open>runs\<close> and everything the program sends over
    the network live in a \<open>world\<close> record that every effectful function takes and
    returns. The lock \<^verbatim>\<open>mu\<close> is not modelled: calls are taken one at a time.
  \<^item> What the network answers, and what the Go standard library computes from bytes
    (\<^verbatim>\<open>json.Unmarshal\<close>, \<^verbatim>\<open>http.NewRequest\<close>, the \<^verbatim>\<open>%v\<close> verb, the
    conversion \<^verbatim>\<open>int(float64)\<close>), are fields of an \<open>env\<close> record: the theorems
    hold for every environment.
  \<^item> A Go \<^verbatim>\<open>error\<close> is a value: \<open>Inl\<close> of a sum type.
\<close>

subsection \<open>Strings and formatting\<close>

text \<open>The verb \<^verbatim>\<open>%d\<close> of \<^verbatim>\<open>fmt.Sprintf\<close>: decimal digits, with a minus sign below zero.\<close>

definition digit_char :: "nat \<Rightarrow> char" where
  "digit_char n = ''0123456789'' ! (n mod 10)"

fun dec_digits :: "nat \<Rightarrow> string" where
  "dec_digits n = (if n < 10 then [digit_char n] else dec_digits (n div 10) @ [digit_char n])"

definition fmt_d :: "int \<Rightarrow> string" where
  "fmt_d i = (if i < 0 then CHR ''-'' # dec_digits (nat (- i)) else dec_digits (nat i))"

text \<open>
  \<^verbatim>\<open>strings.ToLower\<close> and \<^verbatim>\<open>strings.TrimSpace\<close>, on ASCII: the letters \<^verbatim>\<open>A\<close> to
  \<^verbatim>\<open>Z\<close> are lowered, and the six ASCII white-space bytes are trimmed. The Unicode
  letters and spaces beyond ASCII, which Go also handles, are left as they are.
\<close>

definition to_lower_char :: "char \<Rightarrow> char" where
  "to_lower_char c =
     (case map_of (zip ''ABCDEFGHIJKLMNOPQRSTUVWXYZ'' ''abcdefghijklmnopqrstuvwxyz'') c of
        None \<Rightarrow> c
      | Some l \<Rightarrow> l)"

definition ToLower :: "string \<Rightarrow> string" where
  "ToLower s = map to_lower_char s"

definition is_space :: "char \<Rightarrow> bool" where
  "is_space c = (c \<in> set [CHR 0x09, CHR 0x0A, CHR 0x0B, CHR 0x0C, CHR 0x0D, CHR '' ''])"

definition TrimSpace :: "string \<Rightarrow> string" where
  "TrimSpace s = rev (dropWhile is_space (rev (dropWhile is_space s)))"

text \<open>
  \<^verbatim>\<open>fmt.Sscanf(s, "%d", &n)\<close> on a string without leading white space: an optional
  sign, then at least one decimal digit; what follows the digits is not read. The scan
  fails, and \<^verbatim>\<open>n\<close> is not assigned, when there is no digit or when the number does not
  fit a 64-bit integer. \<open>None\<close> is the failed scan.
\<close>

definition is_digit :: "char \<Rightarrow> bool" where
  "is_digit c = (c \<in> set ''0123456789'')"

definition digit_val :: "char \<Rightarrow> nat" where
  "digit_val c = of_char c - 48"

definition digits_val :: "string \<Rightarrow> nat" where
  "digits_val ds = foldl (\<lambda>a c. 10 * a + digit_val c) 0 ds"

definition Sscanf_d :: "string \<Rightarrow> int option" where
  "Sscanf_d s =
     (let (neg, r) =
            (case s of
               [] \<Rightarrow> (False, s)
             | c # cs \<Rightarrow>
                 if c = CHR ''-'' then (True, cs)
                 else if c = CHR ''+'' then (False, cs)
                 else (False, s));
          ds = takeWhile is_digit r;
          v = (if neg then - int (digits_val ds) else int (digits_val ds))
      in if ds = [] then None
         else if - (2 ^ 63) \<le> v \<and> v < 2 ^ 63 then Some v
         else None)"

subsection \<open>Dynamic values\<close>

text \<open>
  A Go value of type \<^verbatim>\<open>any\<close>, as the program meets it: what \<^verbatim>\<open>encoding/json\<close>
  decodes (nil, bool, float64, string, slice, map) and the \<^verbatim>\<open>int\<close> values the program
  stores itself. A \<^verbatim>\<open>map[string]any\<close> is an association list with its keys in the
  order of the source's map literal; the nil map is \<open>[]\<close>.
\<close>

datatype 'v any =
    VNil
  | VBool bool
  | VInt int
  | VFloat 'v
  | VStr string
  | VArr "'v any list"
  | VObj "(string \<times> 'v any) list"

text \<open>\<^verbatim>\<open>m[k]\<close> on a \<^verbatim>\<open>map[string]any\<close>: a missing key reads as nil.\<close>

definition index_any :: "(string \<times> 'v any) list \<Rightarrow> string \<Rightarrow> 'v any" where
  "index_any m k = (case map_of m k of None \<Rightarrow> VNil | Some v \<Rightarrow> v)"

subsection \<open>Domain types\<close>

record resourceDef =
  rd_ID :: string
  rd_Name :: string
  rd_Type :: string
  rd_Unit :: string
  rd_Description :: string
  rd_SourceURL :: string
  rd_Indicator :: string

record region =
  reg_Code :: string
  reg_Name :: string

record 'v collectedValue =
  cv_ResourceID :: string
  cv_Region :: string
  cv_RegionName :: string
  cv_Year :: int
  cv_Value :: 'v
  cv_Unit :: string
  cv_Source :: string
  cv_FetchedAt :: string

record 'v collectionRun =
  run_ID :: string
  run_StartedAt :: string
  run_FinishedAt :: string
  run_Status :: string
  run_Resources :: nat
  run_Collected :: nat
  run_Errors :: "string list"
  run_Values :: "'v collectedValue list"

record 'v jsonldResource =
  ld_Context :: string
  ld_Type :: string
  ld_ID :: string
  ld_Name :: string
  ld_Description :: string
  ld_Region :: string
  ld_Year :: int
  ld_Value :: 'v
  ld_Unit :: string
  ld_Source :: string
  ld_DateCreated :: string

subsection \<open>The catalog and the regions\<close>

definition mk_resource ::
  "string \<Rightarrow> string \<Rightarrow> string \<Rightarrow> string \<Rightarrow> string \<Rightarrow> string \<Rightarrow> resourceDef" where
  "mk_resource i n t u d ind =
     \<lparr>rd_ID = i, rd_Name = n, rd_Type = t, rd_Unit = u, rd_Description = d,
      rd_SourceURL = ''https://api.worldbank.org/v2/country/all/indicator/'',
      rd_Indicator = ind\<rparr>"

definition catalog :: "resourceDef list" where
  "catalog =
     [mk_resource ''crude-oil'' ''Crude Oil'' ''energy'' ''million barrels/day''
        ''Global crude oil production'' ''EG.ELC.PETR.ZS'',
      mk_resource ''natural-gas'' ''Natural Gas'' ''energy'' ''billion cubic meters''
        ''Natural gas production'' ''EG.ELC.NGAS.ZS'',
      mk_resource ''coal'' ''Coal'' ''energy'' ''million tonnes''
        ''Coal production and consumption'' ''EG.ELC.COAL.ZS'',
      mk_resource ''lithium'' ''Lithium'' ''mineral'' ''thousand tonnes LCE''
        ''Lithium production for batteries'' ''TX.VAL.MMTL.ZS.UN'',
      mk_resource ''iron-ore'' ''Iron Ore'' ''mineral'' ''million tonnes''
        ''Iron ore extraction'' ''TX.VAL.MMTL.ZS.UN'',
      mk_resource ''wheat'' ''Wheat'' ''food'' ''million tonnes''
        ''Global wheat production and trade'' ''AG.PRD.FOOD.XD'',
      mk_resource ''rice'' ''Rice'' ''food'' ''million tonnes''
        ''Global rice production'' ''AG.PRD.FOOD.XD'',
      mk_resource ''semiconductors'' ''Semiconductors'' ''technology'' ''billion USD''
        ''Semiconductor production and trade value'' ''NV.IND.MANF.ZS'',
      mk_resource ''rare-earth'' ''Rare Earth Elements'' ''mineral'' ''thousand tonnes''
        ''Rare earth extraction'' ''TX.VAL.MMTL.ZS.UN'',
      mk_resource ''copper'' ''Copper'' ''mineral'' ''million tonnes''
        ''Copper mining and refining'' ''TX.VAL.MMTL.ZS.UN'']"

definition mk_region :: "string \<Rightarrow> string \<Rightarrow> region" where
  "mk_region c n = \<lparr>reg_Code = c, reg_Name = n\<rparr>"

definition regions :: "region list" where
  "regions =
     [mk_region ''USA'' ''United States'', mk_region ''CHN'' ''China'',
      mk_region ''JPN'' ''Japan'', mk_region ''DEU'' ''Germany'',
      mk_region ''GBR'' ''United Kingdom'', mk_region ''IND'' ''India'',
      mk_region ''FRA'' ''France'', mk_region ''BRA'' ''Brazil'',
      mk_region ''SAU'' ''Saudi Arabia'', mk_region ''RUS'' ''Russia'',
      mk_region ''AUS'' ''Australia'', mk_region ''KOR'' ''South Korea'',
      mk_region ''TWN'' ''Taiwan'', mk_region ''CHL'' ''Chile'',
      mk_region ''ARG'' ''Argentina'']"


subsection \<open>The environment and the world\<close>

text \<open>
  One entry of the decoded \<^verbatim>\<open>entries\<close> array: \<^verbatim>\<open>Value\<close> is a pointer in the
  source, nil when the value is missing or \<^verbatim>\<open>null\<close>.
\<close>

record 'v entry =
  e_Date :: string
  e_Value :: "'v option"

record 'v wbDataPoint =
  pt_year :: int
  pt_value :: 'v

text \<open>
  The environment. The network answers the request it is asked as the \<open>k\<close>-th event of
  the process, so two requests for one URL may be answered differently.
  \<^item> \<open>http_get k url\<close> is \<^verbatim>\<open>client.Get(url)\<close>: \<open>Inl\<close> the transport error's text, or
    \<open>Inr\<close> the status code and the body;
  \<^item> \<open>http_post k url\<close> is \<^verbatim>\<open>client.Do(req)\<close> for a POST request, likewise;
  \<^item> \<open>new_request url\<close> is \<^verbatim>\<open>http.NewRequest\<close>: \<open>Some\<close> the error's text when the
    URL is refused, before anything is sent;
  \<^item> \<open>unmarshal_raw\<close>, \<open>unmarshal_entries\<close> and \<open>unmarshal_object\<close> are
    \<^verbatim>\<open>json.Unmarshal\<close> into \<^verbatim>\<open>[]json.RawMessage\<close>, into the entries slice and into
    \<^verbatim>\<open>map[string]any\<close>: \<open>Inl\<close> the error's text, or \<open>Inr\<close> the decoded value;
  \<^item> \<open>fmt_v\<close> is the verb \<^verbatim>\<open>%v\<close>, and \<open>float_to_int\<close> the conversion \<^verbatim>\<open>int(t)\<close>.
\<close>

record 'v env =
  http_get :: "nat \<Rightarrow> string \<Rightarrow> string + (int \<times> string)"
  http_post :: "nat \<Rightarrow> string \<Rightarrow> string + (int \<times> string)"
  new_request :: "string \<Rightarrow> string option"
  unmarshal_raw :: "string \<Rightarrow> string + string list"
  unmarshal_entries :: "string \<Rightarrow> string + 'v entry list"
  unmarshal_object :: "string \<Rightarrow> string + (string \<times> 'v any) list"
  fmt_v :: "'v any \<Rightarrow> string"
  float_to_int :: "'v \<Rightarrow> int"

text \<open>
  What leaves the process: an HTTP request (method and URL) handed to the client, and a
  call of a tool of a remote MCP server (URL and tool name), logged when
  \<^verbatim>\<open>callExternalMCPTool\<close> is entered.
\<close>

datatype event =
    HttpRequest string string
  | RemoteToolCall string string

record 'v world =
  runs :: "'v collectionRun list"
  trace :: "event list"

text \<open>A reading of \<^verbatim>\<open>time.Now().UTC()\<close>: its \<^verbatim>\<open>UnixNano()\<close> and its RFC 3339 text.\<close>

record time =
  UnixNano :: int
  RFC3339 :: string

subsection \<open>Helpers\<close>

fun toInt :: "'v env \<Rightarrow> 'v any \<Rightarrow> int" where
  "toInt env (VFloat t) = float_to_int env t"
| "toInt env (VInt t) = t"
| "toInt env (VStr t) = (case Sscanf_d (TrimSpace t) of None \<Rightarrow> 0 | Some n \<Rightarrow> n)"
| "toInt env _ = 0"

fun strVal :: "'v any \<Rightarrow> string" where
  "strVal (VStr s) = TrimSpace s"
| "strVal _ = TrimSpace []"

fun toStringSlice :: "'v any \<Rightarrow> string list" where
  "toStringSlice (VArr raw) =
     concat (map (\<lambda>x. case x of
                         VStr s \<Rightarrow> if TrimSpace s \<noteq> [] then [TrimSpace s] else []
                       | _ \<Rightarrow> []) raw)"
| "toStringSlice _ = []"

subsection \<open>The World Bank client\<close>

text \<open>
  \<^verbatim>\<open>sort.Slice(xs, less)\<close>: Go promises a permutation of \<open>xs\<close> in which no element is
  \<open>less\<close> than one before it, and no order among equal elements; the model inserts
  each element in turn.
\<close>

fun insert_by :: "('a \<Rightarrow> 'a \<Rightarrow> bool) \<Rightarrow> 'a \<Rightarrow> 'a list \<Rightarrow> 'a list" where
  "insert_by lt x [] = [x]"
| "insert_by lt x (y # ys) = (if lt y x then y # insert_by lt x ys else x # y # ys)"

definition sort_Slice :: "('a \<Rightarrow> 'a \<Rightarrow> bool) \<Rightarrow> 'a list \<Rightarrow> 'a list" where
  "sort_Slice lt xs = foldr (insert_by lt) xs []"

datatype fetch_error =
    ErrHttp string
  | ErrStatus int
  | ErrJson string
  | ErrNoData
  | ErrParseEntries string

text \<open>\<^verbatim>\<open>err.Error()\<close>, which is also what \<^verbatim>\<open>%v\<close> prints for an error.\<close>

fun error_string :: "fetch_error \<Rightarrow> string" where
  "error_string (ErrHttp e) = ''http: '' @ e"
| "error_string (ErrStatus c) = ''http '' @ fmt_d c"
| "error_string (ErrJson e) = ''json: '' @ e"
| "error_string ErrNoData = ''no data''"
| "error_string (ErrParseEntries e) = ''parse entries: '' @ e"

definition fetch_url :: "string \<Rightarrow> string \<Rightarrow> int \<Rightarrow> string" where
  "fetch_url indicator countryCode targetYear =
     (let dateRange = (if targetYear > 0 then fmt_d targetYear @ '':'' @ fmt_d targetYear
                       else ''2020:2024'')
      in ''https://api.worldbank.org/v2/country/'' @ ToLower countryCode @ ''/indicator/''
           @ indicator @ ''?date='' @ dateRange @ ''&format=json&per_page=50'')"

text \<open>The loop over the entries: a nil value or a year of 0 skips the entry.\<close>

definition entry_points :: "'v env \<Rightarrow> 'v entry \<Rightarrow> 'v wbDataPoint list" where
  "entry_points env e =
     (case e_Value e of
        None \<Rightarrow> []
      | Some v \<Rightarrow>
          (let year = toInt env (VStr (e_Date e))
           in if year = 0 then [] else [\<lparr>pt_year = year, pt_value = v\<rparr>]))"

definition collect_points :: "'v env \<Rightarrow> 'v entry list \<Rightarrow> 'v wbDataPoint list" where
  "collect_points env entries = foldl (\<lambda>points e. points @ entry_points env e) [] entries"

text \<open>
  What \<^verbatim>\<open>fetchWorldBankData\<close> does with the answer of \<^verbatim>\<open>client.Get(url)\<close>: the
  body of the function after that call.
\<close>

definition read_response ::
  "'v env \<Rightarrow> string + (int \<times> string) \<Rightarrow> fetch_error + 'v wbDataPoint list" where
  "read_response env resp =
     (case resp of
        Inl err \<Rightarrow> Inl (ErrHttp err)
      | Inr (StatusCode, resp_body) \<Rightarrow>
          (let body = take (512 * 1024) resp_body
           in if StatusCode < 200 \<or> StatusCode > 299 then Inl (ErrStatus StatusCode)
              else case unmarshal_raw env body of
                     Inl err \<Rightarrow> Inl (ErrJson err)
                   | Inr raw \<Rightarrow>
                       if length raw < 2 then Inl ErrNoData
                       else case unmarshal_entries env (raw ! 1) of
                              Inl err \<Rightarrow> Inl (ErrParseEntries err)
                            | Inr entries \<Rightarrow>
                                Inr (sort_Slice (\<lambda>a b. pt_year a > pt_year b)
                                       (collect_points env entries))))"

definition fetchWorldBankData ::
  "'v env \<Rightarrow> 'v world \<Rightarrow> string \<Rightarrow> string \<Rightarrow> int
     \<Rightarrow> (fetch_error + 'v wbDataPoint list) \<times> 'v world" where
  "fetchWorldBankData env w indicator countryCode targetYear =
     (let url = fetch_url indicator countryCode targetYear
      in (read_response env (http_get env (length (trace w)) url),
          w\<lparr>trace := trace w @ [HttpRequest ''GET'' url]\<rparr>))"

subsection \<open>The collection engine\<close>

definition collected ::
  "resourceDef \<Rightarrow> region \<Rightarrow> string \<Rightarrow> 'v wbDataPoint \<Rightarrow> 'v collectedValue" where
  "collected res reg fetchedAt v =
     \<lparr>cv_ResourceID = rd_ID res, cv_Region = reg_Code reg, cv_RegionName = reg_Name reg,
      cv_Year = pt_year v, cv_Value = pt_value v, cv_Unit = rd_Unit res,
      cv_Source = ''World Bank API'', cv_FetchedAt = fetchedAt\<rparr>"

text \<open>The body of the inner loop: one (resource, region) pair.\<close>

definition scan_pair ::
  "'v env \<Rightarrow> string \<Rightarrow> int \<Rightarrow> resourceDef \<Rightarrow> 'v collectionRun \<times> 'v world \<Rightarrow> region
     \<Rightarrow> 'v collectionRun \<times> 'v world" where
  "scan_pair env fetchedAt year res st reg =
     (case st of
        (run, w) \<Rightarrow>
          (case fetchWorldBankData env w (rd_Indicator res) (reg_Code reg) year of
             (Inl err, w') \<Rightarrow>
               (run\<lparr>run_Errors :=
                      run_Errors run
                        @ [rd_ID res @ ''/'' @ reg_Code reg @ '': '' @ error_string err]\<rparr>,
                w')
           | (Inr values, w') \<Rightarrow>
               (run\<lparr>run_Values := run_Values run @ map (collected res reg fetchedAt) values\<rparr>,
                w')))"

text \<open>The body of the outer loop: every region, in the order of the list.\<close>

definition scan_resource ::
  "'v env \<Rightarrow> string \<Rightarrow> int \<Rightarrow> 'v collectionRun \<times> 'v world \<Rightarrow> resourceDef
     \<Rightarrow> 'v collectionRun \<times> 'v world" where
  "scan_resource env fetchedAt year st res = foldl (scan_pair env fetchedAt year res) st regions"

definition target_resources :: "string list \<Rightarrow> resourceDef list" where
  "target_resources filterIDs =
     (if length filterIDs > 0
      then (let idSet = foldl (\<lambda>m i. m(i \<mapsto> True)) Map.empty filterIDs
            in filter (\<lambda>r. idSet (rd_ID r) = Some True) catalog)
      else catalog)"

text \<open>
  \<open>now\<close> and \<open>finished\<close> are the two readings of the clock, before and after the scan.
\<close>

definition executeCollection ::
  "'v env \<Rightarrow> 'v world \<Rightarrow> time \<Rightarrow> time \<Rightarrow> string list \<Rightarrow> int
     \<Rightarrow> 'v collectionRun \<times> 'v world" where
  "executeCollection env w now finished filterIDs year =
     (let run0 = \<lparr>run_ID = ''run-'' @ fmt_d (UnixNano now), run_StartedAt = RFC3339 now,
                  run_FinishedAt = [], run_Status = ''running'', run_Resources = 0,
                  run_Collected = 0, run_Errors = [], run_Values = []\<rparr>;
          targetResources = target_resources filterIDs;
          run1 = run0\<lparr>run_Resources := length targetResources\<rparr>;
          (run2, w1) = foldl (scan_resource env (RFC3339 now) year) (run1, w) targetResources;
          run3 = run2\<lparr>run_Collected := length (run_Values run2)\<rparr>;
          run4 = run3\<lparr>run_FinishedAt := RFC3339 finished\<rparr>;
          run5 = run4\<lparr>run_Status :=
                   (if length (run_Errors run4) > 0 \<and> run_Collected run4 = 0 then ''failed''
                    else if length (run_Errors run4) > 0 then ''partial''
                    else ''completed'')\<rparr>;
          rs = runs w1 @ [run5];
          w2 = w1\<lparr>runs := (if length rs > 50 then drop (length rs - 50) rs else rs)\<rparr>
      in (run5, w2))"

subsection \<open>The JSON-LD export\<close>

record 'v dataset =
  ds_context :: string
  ds_type :: string
  ds_id :: string
  ds_name :: string
  ds_dateCreated :: string
  ds_graph :: "'v jsonldResource list"
  ds_count :: nat

definition observation :: "'v collectedValue \<Rightarrow> 'v jsonldResource" where
  "observation v =
     \<lparr>ld_Context = ''https://schema.org/'',
      ld_Type = ''Observation'',
      ld_ID = ''https://resources.gftd.ai/content/resource/'' @ cv_ResourceID v @ ''/''
                @ ToLower (cv_Region v) @ ''/'' @ fmt_d (cv_Year v),
      ld_Name = cv_ResourceID v @ '' - '' @ cv_RegionName v @ '' ('' @ fmt_d (cv_Year v) @ '')'',
      ld_Description = ''Collected value for '' @ cv_ResourceID v @ '' in '' @ cv_RegionName v
                         @ '', year '' @ fmt_d (cv_Year v),
      ld_Region = cv_RegionName v,
      ld_Year = cv_Year v,
      ld_Value = cv_Value v,
      ld_Unit = cv_Unit v,
      ld_Source = cv_Source v,
      ld_DateCreated = cv_FetchedAt v\<rparr>"

definition exportJSONLD :: "'v world \<Rightarrow> string \<Rightarrow> string + 'v dataset" where
  "exportJSONLD w resourceID =
     (if length (runs w) = 0
      then Inl ''no collection runs available; call collector.run first''
      else (let latest = runs w ! (length (runs w) - 1);
                graph = concat (map (\<lambda>v. if resourceID \<noteq> [] \<and> cv_ResourceID v \<noteq> resourceID
                                          then [] else [observation v])
                                    (run_Values latest))
            in Inr \<lparr>ds_context = ''https://schema.org/'',
                    ds_type = ''Dataset'',
                    ds_id = ''https://resources.gftd.ai/content/resource/collection'',
                    ds_name = ''GFTD Global Resource Collection'',
                    ds_dateCreated = run_FinishedAt latest,
                    ds_graph = graph,
                    ds_count = length graph\<rparr>))"

subsection \<open>The publish relay\<close>

text \<open>
  The request's body is not modelled: the network's answer may depend on anything. The
  arguments \<open>args\<close> only go into that body.
\<close>

definition callExternalMCPTool ::
  "'v env \<Rightarrow> 'v world \<Rightarrow> string \<Rightarrow> string \<Rightarrow> (string \<times> 'v any) list
     \<Rightarrow> (string + (string \<times> 'v any) list) \<times> 'v world" where
  "callExternalMCPTool env w mcpURL toolName args =
     (let w0 = w\<lparr>trace := trace w @ [RemoteToolCall mcpURL toolName]\<rparr>
      in case new_request env mcpURL of
           Some err \<Rightarrow> (Inl err, w0)
         | None \<Rightarrow>
             (let w1 = w0\<lparr>trace := trace w0 @ [HttpRequest ''POST'' mcpURL]\<rparr>
              in case http_post env (length (trace w0)) mcpURL of
                   Inl err \<Rightarrow> (Inl err, w1)
                 | Inr (StatusCode, resp_body) \<Rightarrow>
                     (let body = take (1024 * 1024) resp_body
                      in if StatusCode < 200 \<or> StatusCode > 299
                         then (Inl (''http '' @ fmt_d StatusCode), w1)
                         else case unmarshal_object env body of
                                Inl err \<Rightarrow> (Inl err, w1)
                              | Inr parsed \<Rightarrow>
                                  (case index_any parsed ''error'' of
                                     VObj e \<Rightarrow>
                                       (Inl (''mcp error: '' @ fmt_v env (index_any e ''message'')),
                                        w1)
                                   | _ \<Rightarrow>
                                       (case index_any parsed ''result'' of
                                          VObj result \<Rightarrow> (Inr result, w1)
                                        | _ \<Rightarrow> (Inr parsed, w1))))))"

definition publishToMCP ::
  "'v env \<Rightarrow> 'v world \<Rightarrow> string \<Rightarrow> (string + (string \<times> 'v any) list) \<times> 'v world" where
  "publishToMCP env w targetURL =
     (if length (runs w) = 0 then (Inl ''no collection runs; call collector.run first'', w)
      else (let latest = runs w ! (length (runs w) - 1);
                values = run_Values latest
            in if length values = 0
               then (Inr [(''status'', VStr ''skipped''),
                          (''reason'', VStr ''no values to publish'')], w)
               else case callExternalMCPTool env w targetURL ''global.list_resources'' [] of
                      (Inl err, w') \<Rightarrow>
                        (Inr [(''status'', VStr ''error''), (''detail'', VStr err)], w')
                    | (Inr result, w') \<Rightarrow>
                        (Inr [(''status'', VStr ''published''),
                              (''values_count'', VInt (int (length values))),
                              (''target_url'', VStr targetURL),
                              (''target_response'', VObj result)], w')))"

subsection \<open>The tool dispatcher\<close>

text \<open>
  The result of a tool: each constructor is one of the maps that \<^verbatim>\<open>callTool\<close> returns,
  its arguments the values under the map's keys, in the order the source writes them.
  A run summary is itself a \<^verbatim>\<open>map[string]any\<close>.
\<close>

datatype 'v tool_result =
    ResRun "'v collectionRun"
  | ResStatus "(string \<times> 'v any) list list" nat
  | ResCatalog "resourceDef list" nat
  | ResCollected string "'v collectedValue list" nat
  | ResExport "'v dataset"
  | ResPublish "(string \<times> 'v any) list"

definition summary :: "'v collectionRun \<Rightarrow> (string \<times> 'v any) list" where
  "summary r =
     [(''id'', VStr (run_ID r)), (''started_at'', VStr (run_StartedAt r)),
      (''finished_at'', VStr (run_FinishedAt r)),
      (''status'', VStr (run_Status r)),
      (''resources_requested'', VInt (int (run_Resources r))),
      (''values_collected'', VInt (int (run_Collected r))),
      (''error_count'', VInt (int (length (run_Errors r))))]"

text \<open>The linear scan for a run id: the first run that has it.\<close>

fun find_run :: "'v collectionRun list \<Rightarrow> string \<Rightarrow> 'v collectionRun option" where
  "find_run [] runID = None"
| "find_run (r # rs) runID = (if run_ID r = runID then Some r else find_run rs runID)"

definition callTool ::
  "'v env \<Rightarrow> 'v world \<Rightarrow> time \<Rightarrow> time \<Rightarrow> string \<Rightarrow> (string \<times> 'v any) list
     \<Rightarrow> (string + 'v tool_result) \<times> 'v world" where
  "callTool env w now finished name args =
     (if name = ''collector.run'' then
        (let resourceIDs = toStringSlice (index_any args ''resource_ids'');
             year = toInt env (index_any args ''year'');
             (run, w') = executeCollection env w now finished resourceIDs year
         in (Inr (ResRun run), w'))
      else if name = ''collector.status'' then
        (let recent = (if length (runs w) > 10 then drop (length (runs w) - 10) (runs w)
                       else runs w);
             summaries = map summary recent
         in (Inr (ResStatus summaries (length summaries)), w))
      else if name = ''collector.list_catalog'' then
        (Inr (ResCatalog catalog (length catalog)), w)
      else if name = ''collector.get_collected'' then
        (let resourceID = strVal (index_any args ''resource_id'');
             runID = strVal (index_any args ''run_id'');
             target = (if runID \<noteq> [] then find_run (runs w) runID
                       else if length (runs w) > 0 then Some (runs w ! (length (runs w) - 1))
                       else None)
         in case target of
              None \<Rightarrow> (Inl ''no collection runs found'', w)
            | Some t \<Rightarrow>
                (let values = (if resourceID \<noteq> []
                               then filter (\<lambda>v. cv_ResourceID v = resourceID) (run_Values t)
                               else run_Values t)
                 in (Inr (ResCollected (run_ID t) values (length values)), w)))
      else if name = ''collector.export_jsonld'' then
        (let resourceID = strVal (index_any args ''resource_id'')
         in (map_sum id ResExport (exportJSONLD w resourceID), w))
      else if name = ''collector.publish'' then
        (let targetURL = strVal (index_any args ''target_mcp_url'');
             targetURL = (if targetURL = [] then ''https://actors.gftd.ai/w5n8p3q6/api/mcp''
                          else targetURL)
         in case publishToMCP env w targetURL of
              (r, w') \<Rightarrow> (map_sum id ResPublish r, w'))
      else (Inl (''unknown tool: '' @ name), w))"

subsection \<open>The process\<close>

text \<open>
  The two requests that reach the state: \<^verbatim>\<open>tools/call\<close> on \<^verbatim>\<open>/api/mcp\<close>, which is
  \<^verbatim>\<open>callTool\<close>, and a POST on \<^verbatim>\<open>/scheduler/trigger\<close>, which is
  \<^verbatim>\<open>executeCollection(nil, 0)\<close>. Each carries the readings of the clock it will make.
  The process starts with no run, and serves its requests one after the other.
\<close>

datatype 'v request =
    ToolsCall time time string "(string \<times> 'v any) list"
  | SchedulerTrigger time time

fun handle_request :: "'v env \<Rightarrow> 'v world \<Rightarrow> 'v request \<Rightarrow> 'v world" where
  "handle_request env w (ToolsCall now finished name args) =
     snd (callTool env w now finished name args)"
| "handle_request env w (SchedulerTrigger now finished) =
     snd (executeCollection env w now finished [] 0)"

definition initial_world :: "'v world" where
  "initial_world = \<lparr>runs = [], trace = []\<rparr>"

definition serve :: "'v env \<Rightarrow> 'v request list \<Rightarrow> 'v world" where
  "serve env reqs = foldl (handle_request env) initial_world reqs"

subsection \<open>What the scan is expected to produce\<close>

text \<open>
  The specification of the scan, pair by pair, to be compared with the nested loops of
  \<open>executeCollection\<close>. The pair fetched as the \<open>k\<close>-th event of the process has the
  outcome \<open>spec_outcome\<close>; a failed pair contributes one error string and no value, a
  successful pair contributes no error and one value for each point; and each pair sends
  one GET request.
\<close>

definition spec_outcome ::
  "'v env \<Rightarrow> int \<Rightarrow> nat \<Rightarrow> resourceDef \<Rightarrow> region \<Rightarrow> fetch_error + 'v wbDataPoint list" where
  "spec_outcome env year k res reg =
     read_response env (http_get env k (fetch_url (rd_Indicator res) (reg_Code reg) year))"

definition spec_errors :: "'v env \<Rightarrow> int \<Rightarrow> nat \<times> resourceDef \<times> region \<Rightarrow> string list" where
  "spec_errors env year p =
     (case p of
        (k, res, reg) \<Rightarrow>
          (case spec_outcome env year k res reg of
             Inl err \<Rightarrow> [rd_ID res @ ''/'' @ reg_Code reg @ '': '' @ error_string err]
           | Inr values \<Rightarrow> []))"

definition spec_values ::
  "'v env \<Rightarrow> string \<Rightarrow> int \<Rightarrow> nat \<times> resourceDef \<times> region \<Rightarrow> 'v collectedValue list" where
  "spec_values env fetchedAt year p =
     (case p of
        (k, res, reg) \<Rightarrow>
          (case spec_outcome env year k res reg of
             Inl err \<Rightarrow> []
           | Inr values \<Rightarrow>
               map (\<lambda>v. \<lparr>cv_ResourceID = rd_ID res, cv_Region = reg_Code reg,
                          cv_RegionName = reg_Name reg, cv_Year = pt_year v,
                          cv_Value = pt_value v, cv_Unit = rd_Unit res,
                          cv_Source = ''World Bank API'', cv_FetchedAt = fetchedAt\<rparr>) values))"

definition spec_request :: "int \<Rightarrow> resourceDef \<times> region \<Rightarrow> event" where
  "spec_request year p =
     (case p of
        (res, reg) \<Rightarrow> HttpRequest ''GET'' (fetch_url (rd_Indicator res) (reg_Code reg) year))"

subsection \<open>Sample inputs\<close>

text \<open>Two readings of the clock, and an environment in which no connection succeeds.\<close>

definition t0 :: time where
  "t0 = \<lparr>UnixNano = 1700000000000000000, RFC3339 = ''2023-11-14T22:13:20Z''\<rparr>"

definition t1 :: time where
  "t1 = \<lparr>UnixNano = 1700000042000000000, RFC3339 = ''2023-11-14T22:14:02Z''\<rparr>"

definition offline_env :: "int env" where
  "offline_env =
     \<lparr>http_get = (\<lambda>k url. Inl ''dial tcp: connection refused''),
      http_post = (\<lambda>k url. Inl ''dial tcp: connection refused''),
      new_request = (\<lambda>url. None),
      unmarshal_raw = (\<lambda>b. Inl ''unexpected end of JSON input''),
      unmarshal_entries = (\<lambda>b. Inl ''unexpected end of JSON input''),
      unmarshal_object = (\<lambda>b. Inl ''unexpected end of JSON input''),
      fmt_v = (\<lambda>v. ''<nil>''),
      float_to_int = (\<lambda>t. t)\<rparr>"

section \<open>Properties\<close>

subsection \<open>The scan in closed form\<close>

lemma scan_pair_eq:
  "scan_pair env t y res (run, w) reg =
     (run\<lparr>run_Errors := run_Errors run @ spec_errors env y (length (trace w), res, reg),
          run_Values := run_Values run @ spec_values env t y (length (trace w), res, reg)\<rparr>,
      w\<lparr>trace := trace w @ [spec_request y (res, reg)]\<rparr>)"
  by (simp add: scan_pair_def fetchWorldBankData_def Let_def spec_errors_def spec_values_def
      spec_request_def spec_outcome_def collected_def [abs_def] split: sum.splits)

lemma scan_pairs:
  "foldl (\<lambda>st (res, reg). scan_pair env t y res st reg) (run, w) ps =
     (run\<lparr>run_Errors := run_Errors run
              @ concat (map (spec_errors env y) (enumerate (length (trace w)) ps)),
          run_Values := run_Values run
              @ concat (map (spec_values env t y) (enumerate (length (trace w)) ps))\<rparr>,
      w\<lparr>trace := trace w @ map (spec_request y) ps\<rparr>)"
proof (induction ps arbitrary: run w)
  case Nil
  then show ?case by simp
next
  case (Cons p ps)
  obtain res reg where p: "p = (res, reg)" by (cases p)
  show ?case
    unfolding p by (simp add: scan_pair_eq Cons.IH)
qed

lemma foldl_nested_product:
  "foldl (\<lambda>st x. foldl (f x) st ys) st xs
     = foldl (\<lambda>st (x, y). f x st y) st (List.product xs ys)"
proof (induction xs arbitrary: st)
  case Nil
  then show ?case by simp
next
  case (Cons x xs)
  have "foldl (\<lambda>st (x, y). f x st y) st (map (Pair x) ys) = foldl (f x) st ys"
    by (induction ys arbitrary: st) simp_all
  with Cons show ?case by simp
qed

lemma scan_all:
  "foldl (scan_resource env t y) (run, w) ress =
     (run\<lparr>run_Errors := run_Errors run
              @ concat (map (spec_errors env y)
                          (enumerate (length (trace w)) (List.product ress regions))),
          run_Values := run_Values run
              @ concat (map (spec_values env t y)
                          (enumerate (length (trace w)) (List.product ress regions)))\<rparr>,
      w\<lparr>trace := trace w @ map (spec_request y) (List.product ress regions)\<rparr>)"
proof -
  have "foldl (scan_resource env t y) (run, w) ress
          = foldl (\<lambda>st res. foldl (scan_pair env t y res) st regions) (run, w) ress"
    by (simp add: scan_resource_def [abs_def])
  also have "\<dots> = foldl (\<lambda>st (res, reg). scan_pair env t y res st reg) (run, w)
                      (List.product ress regions)"
    by (rule foldl_nested_product)
  finally show ?thesis by (simp add: scan_pairs)
qed

lemma executeCollection_eq:
  "executeCollection env w now fin F y =
     (let ps = enumerate (length (trace w)) (List.product (target_resources F) regions);
          errors = concat (map (spec_errors env y) ps);
          values = concat (map (spec_values env (RFC3339 now) y) ps);
          run = \<lparr>run_ID = ''run-'' @ fmt_d (UnixNano now), run_StartedAt = RFC3339 now,
                 run_FinishedAt = RFC3339 fin,
                 run_Status = (if errors = [] then ''completed''
                               else if values = [] then ''failed'' else ''partial''),
                 run_Resources = length (target_resources F),
                 run_Collected = length values, run_Errors = errors, run_Values = values\<rparr>
      in (run, \<lparr>runs = drop (length (runs w) - 49) (runs w) @ [run],
                trace = trace w
                  @ map (spec_request y) (List.product (target_resources F) regions)\<rparr>))"
  by (simp add: executeCollection_def Let_def scan_all)

lemma idSet_lookup:
  "foldl (\<lambda>m i. m(i \<mapsto> True)) m0 F k = (if k \<in> set F then Some True else m0 k)"
  by (induction F arbitrary: m0) auto

lemma target_resources_eq:
  "target_resources F = (if F = [] then catalog else filter (\<lambda>r. rd_ID r \<in> set F) catalog)"
  by (simp add: target_resources_def Let_def idSet_lookup)

subsection \<open>The history is only changed by a collection\<close>

lemma runs_callExternalMCPTool:
  "runs (snd (callExternalMCPTool env w url tool args)) = runs w"
  by (simp add: callExternalMCPTool_def Let_def
      split: option.splits sum.splits prod.splits any.splits)

lemma runs_publishToMCP: "runs (snd (publishToMCP env w url)) = runs w"
  using runs_callExternalMCPTool [of env w url "''global.list_resources''" "[]"]
  by (auto simp: publishToMCP_def Let_def split: prod.splits sum.splits)

lemma runs_executeCollection:
  "runs (snd (executeCollection env w now fin F y))
     = drop (length (runs w) - 49) (runs w) @ [fst (executeCollection env w now fin F y)]"
  by (simp add: executeCollection_eq Let_def)

lemma length_runs_executeCollection:
  "length (runs (snd (executeCollection env w now fin F y))) \<le> 50"
  unfolding runs_executeCollection by simp

lemma runs_callTool:
  "runs (snd (callTool env w now fin name args)) =
     (if name = ''collector.run''
      then runs (snd (executeCollection env w now fin
                        (toStringSlice (index_any args ''resource_ids''))
                        (toInt env (index_any args ''year''))))
      else runs w)"
  by (simp add: callTool_def Let_def split_beta runs_publishToMCP split: option.splits)

lemma length_runs_handle_request:
  "length (runs w) \<le> 50 \<Longrightarrow> length (runs (handle_request env w req)) \<le> 50"
  by (cases req) (simp_all add: runs_callTool length_runs_executeCollection)

lemma length_runs_foldl:
  "length (runs w) \<le> 50 \<Longrightarrow> length (runs (foldl (handle_request env) w reqs)) \<le> 50"
  by (induction reqs arbitrary: w) (simp_all add: length_runs_handle_request)

lemma length_runs_serve: "length (runs (serve env reqs)) \<le> 50"
  by (simp add: serve_def length_runs_foldl initial_world_def)

subsection \<open>The claims about the collection engine\<close>

text \<open>
  C1. The status of the run that \<open>executeCollection\<close> returns is decided by its error
  list and its collected count: it is \<open>completed\<close> exactly when there is no error,
  \<open>failed\<close> exactly when there is an error and nothing was collected, \<open>partial\<close>
  exactly when there is an error and something was collected. It is always one of the
  three (never \<open>running\<close>), and the collected count is the length of the value list.
\<close>

theorem C1_status_derivation:
  "let run = fst (executeCollection env w now fin filterIDs year)
   in (run_Status run = ''completed'' \<longleftrightarrow> run_Errors run = []) \<and>
      (run_Status run = ''failed'' \<longleftrightarrow> run_Errors run \<noteq> [] \<and> run_Collected run = 0) \<and>
      (run_Status run = ''partial'' \<longleftrightarrow> run_Errors run \<noteq> [] \<and> run_Collected run > 0) \<and>
      run_Status run \<in> {''completed'', ''failed'', ''partial''} \<and>
      run_Collected run = length (run_Values run)"
  by (simp add: executeCollection_eq Let_def)

text \<open>
  C2. The scan visits every pair of a target resource and a region, resources outermost,
  and never stops early: the requests it sends are one GET for each pair, in that order.
  The function always returns a run (it has no error result). The run's error list holds,
  for each failed pair and in the order of the scan, the resource id, a slash, the region
  code, a colon and a space, and the error's text; the run's value list holds, for each
  successful pair and in the order of the scan, one value for each returned point, with
  the resource's id and unit, the region's code and name, the point's year and value, the
  label \<open>World Bank API\<close> and the start time of the run.
\<close>

theorem C2_scan_recovers_failures:
  "let pairs = List.product (target_resources filterIDs) regions;
       ps = enumerate (length (trace w)) pairs;
       run = fst (executeCollection env w now fin filterIDs year);
       w' = snd (executeCollection env w now fin filterIDs year)
   in run_Errors run = concat (map (spec_errors env year) ps) \<and>
      run_Values run = concat (map (spec_values env (RFC3339 now) year) ps) \<and>
      trace w' = trace w @ map (spec_request year) pairs"
  by (simp add: executeCollection_eq Let_def)

text \<open>
  C3, as amended. For a filter that is not empty, the target resources are the catalog
  entries whose id is in the filter, in the order of the catalog. For the empty filter,
  which is also what a caller without a filter passes, they are the whole catalog. The
  run's count of requested resources is the number of target resources.
\<close>

theorem C3_target_resources:
  "target_resources filterIDs
     = (if filterIDs = [] then catalog
        else filter (\<lambda>r. rd_ID r \<in> set filterIDs) catalog) \<and>
   run_Resources (fst (executeCollection env w now fin filterIDs year))
     = length (target_resources filterIDs)"
  by (simp add: executeCollection_eq Let_def target_resources_eq)

text \<open>
  C3 as stated fails for the empty filter: no catalog entry has its id in the empty set,
  yet the run requests all ten resources of the catalog.
\<close>

theorem C3_empty_filter_counterexample:
  "run_Resources (fst (executeCollection offline_env initial_world t0 t1 [] 0)) = 10 \<and>
   length (filter (\<lambda>r. rd_ID r \<in> set []) catalog) = 0"
  by (simp add: executeCollection_eq Let_def target_resources_eq catalog_def)

text \<open>
  C4. The history never holds more than 50 runs: not after any sequence of requests served
  from the start of the process, and not after any single collection, whatever the history
  was before. A collection keeps the latest 49 runs of the old history, in their order,
  and puts its own run last: what is evicted is the oldest.
\<close>

theorem C4_history_bounded_fifo:
  "length (runs (serve env reqs)) \<le> 50 \<and>
   (let run = fst (executeCollection env w now fin filterIDs year);
        w' = snd (executeCollection env w now fin filterIDs year)
    in length (runs w') \<le> 50 \<and>
       runs w' = drop (length (runs w) - 49) (runs w) @ [run])"
  using length_runs_executeCollection [of env w now fin filterIDs year]
  by (simp add: Let_def length_runs_serve runs_executeCollection)

end
